theory Spec2Isabelle
  imports Main "HOL-Library.Sublist"
begin

section \<open>Skyscope Sentinel: the turn orchestration core of main.go\<close>

text \<open>
  The Go program embedded in the installer script is a bubbletea application: a
  \<open>model\<close> struct, an \<open>Update\<close> function that consumes one message at a time and
  returns the commands to run next, and a handful of commands (generation, speech,
  tool execution) that run outside \<open>Update\<close> and report back one message each.

  Go strings are byte sequences; they are modelled as \<open>string\<close> (a list of 8-bit
  characters). All patterns the program searches for are ASCII, so matching bytes and
  matching runes give the same result.
\<close>

subsection \<open>Configuration constants\<close>

definition etherVoiceID :: string where
  "etherVoiceID = ''ether''"

definition auroraVoiceID :: string where
  "auroraVoiceID = ''aurora''"

definition memoryFile :: string where
  "memoryFile = ''memory.json''"

definition ollamaURL :: string where
  "ollamaURL = ''http://localhost:11434/api/generate''"

definition newline :: char where
  "newline = CHR 0x0A"

definition backslash :: char where
  "backslash = CHR 0x5C"

definition quote :: char where
  "quote = CHR 0x27"

subsection \<open>The functions of package strings that the program calls\<close>

definition HasPrefix :: "string \<Rightarrow> string \<Rightarrow> bool" where
  "HasPrefix s pat = (take (length pat) s = pat)"

text \<open>
  \<open>Cut s sep\<close> splits \<open>s\<close> around the first (leftmost) occurrence of \<open>sep\<close>; it is
  \<open>strings.Index\<close> followed by the two slices. \<open>Contains\<close>, \<open>Replace\<close> with count 1
  and \<open>SplitN\<close> with count 2 are all this search.
\<close>

fun Cut :: "string \<Rightarrow> string \<Rightarrow> (string \<times> string) option" where
  "Cut [] sep = (if sep = [] then Some ([], []) else None)"
| "Cut (c # cs) sep =
     (if HasPrefix (c # cs) sep then Some ([], drop (length sep) (c # cs))
      else (case Cut cs sep of
              None \<Rightarrow> None
            | Some (before, rest) \<Rightarrow> Some (c # before, rest)))"

definition Contains :: "string \<Rightarrow> string \<Rightarrow> bool" where
  "Contains s substr = (Cut s substr \<noteq> None)"

text \<open>\<open>strings.Replace(s, old, new, 1)\<close>: only the first occurrence is replaced.\<close>

definition Replace1 :: "string \<Rightarrow> string \<Rightarrow> string \<Rightarrow> string" where
  "Replace1 s old new =
     (case Cut s old of None \<Rightarrow> s | Some (before, rest) \<Rightarrow> before @ new @ rest)"

text \<open>\<open>strings.SplitN(s, sep, 2)\<close>: one part when \<open>sep\<close> does not occur, else two.\<close>

definition SplitN2 :: "string \<Rightarrow> string \<Rightarrow> string list" where
  "SplitN2 s sep =
     (case Cut s sep of None \<Rightarrow> [s] | Some (before, rest) \<Rightarrow> [before, rest])"

text \<open>
  \<open>strings.ReplaceAll(s, old, new)\<close> replaces the non-overlapping occurrences of
  \<open>old\<close> from left to right. The program calls it only with a non-empty \<open>old\<close>
  (Go inserts \<open>new\<close> at every rune boundary when \<open>old\<close> is empty; here an empty
  \<open>old\<close> leaves the text as it is).
\<close>

function ReplaceAll :: "string \<Rightarrow> string \<Rightarrow> string \<Rightarrow> string" where
  "ReplaceAll [] old new = []"
| "ReplaceAll (c # cs) old new =
     (if old \<noteq> [] \<and> HasPrefix (c # cs) old
      then new @ ReplaceAll (drop (length old) (c # cs)) old new
      else c # ReplaceAll cs old new)"
  by pat_completeness auto
termination
  by (relation "measure (\<lambda>(s, old, new). length s)") auto

text \<open>
  \<open>strings.ToUpper\<close> on ASCII input. The program applies it to the first group of
  the tool pattern only, which consists of ASCII word characters.
\<close>

definition upper_char :: "char \<Rightarrow> char" where
  "upper_char c =
     (if of_char c \<ge> (97::nat) \<and> of_char c \<le> (122::nat)
      then char_of (of_char c - (32::nat)) else c)"

definition ToUpper :: "string \<Rightarrow> string" where
  "ToUpper s = map upper_char s"

subsection \<open>The tool pattern\<close>

text \<open>
  \<^verbatim>\<open>var toolRegex = regexp.MustCompile(`\[TOOL:(\w+):(.+?)\]`)\<close>

  \<open>\w\<close> is an ASCII letter, digit or underscore. At a given start position the
  match is unique: \<open>\w+\<close> must take the whole run of word characters, because the
  next character has to be the colon; \<open>.+?\<close> takes one character that is not a
  newline and then as few further characters as possible up to the first closing
  bracket, none of them a newline. Go returns the leftmost match.
\<close>

definition is_word :: "char \<Rightarrow> bool" where
  "is_word c =
     (let n = (of_char c :: nat)
      in (48 \<le> n \<and> n \<le> 57) \<or> (65 \<le> n \<and> n \<le> 90) \<or> (97 \<le> n \<and> n \<le> 122) \<or> n = 95)"

definition in_arg :: "char \<Rightarrow> bool" where
  "in_arg c = (c \<noteq> CHR '']'' \<and> c \<noteq> newline)"

text \<open>The match that starts at the head of the text: the two groups.\<close>

definition toolRegex_here :: "string \<Rightarrow> (string \<times> string) option" where
  "toolRegex_here s =
     (if HasPrefix s ''[TOOL:'' then
        (let r = drop 6 s; w = takeWhile is_word r
         in if w = [] then None
            else (case dropWhile is_word r of
                    c # c1 # r3 \<Rightarrow>
                      if c = CHR '':'' \<and> c1 \<noteq> newline then
                        (case dropWhile in_arg r3 of
                           d # _ \<Rightarrow> if d = CHR '']'' then Some (w, c1 # takeWhile in_arg r3)
                                    else None
                         | [] \<Rightarrow> None)
                      else None
                  | _ \<Rightarrow> None))
      else None)"

text \<open>\<open>FindStringSubmatch\<close>: the groups of the leftmost match.\<close>

fun FindStringSubmatch :: "string \<Rightarrow> (string \<times> string) option" where
  "FindStringSubmatch [] = None"
| "FindStringSubmatch (c # cs) =
     (case toolRegex_here (c # cs) of
        Some g \<Rightarrow> Some g
      | None \<Rightarrow> FindStringSubmatch cs)"

definition whole_match :: "string \<times> string \<Rightarrow> string" where
  "whole_match g = ''[TOOL:'' @ fst g @ '':'' @ snd g @ '']''"

definition MatchString :: "string \<Rightarrow> bool" where
  "MatchString s = (FindStringSubmatch s \<noteq> None)"

text \<open>\<open>FindString\<close>: the text of the leftmost match, the empty string when none.\<close>

definition FindString :: "string \<Rightarrow> string" where
  "FindString s = (case FindStringSubmatch s of None \<Rightarrow> [] | Some g \<Rightarrow> whole_match g)"

text \<open>
  \<open>toolRegex.ReplaceAllString(text, "")\<close>: every match is removed, scanning from
  left to right and continuing after the end of each match.
\<close>

function ReplaceAllString_empty :: "string \<Rightarrow> string" where
  "ReplaceAllString_empty [] = []"
| "ReplaceAllString_empty (c # cs) =
     (case toolRegex_here (c # cs) of
        Some g \<Rightarrow> ReplaceAllString_empty (drop (length (whole_match g)) (c # cs))
      | None \<Rightarrow> c # ReplaceAllString_empty cs)"
  by pat_completeness auto
termination
  by (relation "measure length") (auto simp: whole_match_def)

subsection \<open>The code-fence pattern of the display\<close>

text \<open>
  \<^verbatim>\<open>regexp.MustCompile("(?s)```bash(.*?)```").ReplaceAllStringFunc(styledText, f)\<close>

  A match starts at the leftmost opening fence and ends at the first closing fence
  after it (the body is lazy and may span lines); the scan continues after the match.
  When no closing fence follows, nothing further matches.
\<close>

definition fence_open :: string where
  "fence_open = [CHR 0x60, CHR 0x60, CHR 0x60, CHR ''b'', CHR ''a'', CHR ''s'', CHR ''h'']"

definition fence_close :: string where
  "fence_close = [CHR 0x60, CHR 0x60, CHR 0x60]"

function ReplaceFences :: "(string \<Rightarrow> string) \<Rightarrow> string \<Rightarrow> string" where
  "ReplaceFences f s =
     (case Cut s fence_open of
        None \<Rightarrow> s
      | Some (before, rest) \<Rightarrow>
          (case Cut rest fence_close of
             None \<Rightarrow> s
           | Some (body, after) \<Rightarrow>
               before @ f (fence_open @ body @ fence_close) @ ReplaceFences f after))"
  by pat_completeness auto
termination
proof (relation "measure (\<lambda>(f, s). length s)")
  have prefix_length: "length sep \<le> length s" if "HasPrefix s sep" for s sep
  proof -
    from that have "length (take (length sep) s) = length sep"
      by (simp add: HasPrefix_def)
    then show ?thesis by simp
  qed
  have cut_length: "length a + length sep + length b = length s"
    if "Cut s sep = Some (a, b)" for s sep a b
    using that
  proof (induction s arbitrary: a)
    case Nil
    then show ?case by (simp split: if_splits)
  next
    case (Cons c cs)
    show ?case
    proof (cases "HasPrefix (c # cs) sep")
      case True
      from prefix_length [OF True] True Cons.prems show ?thesis by auto
    next
      case False
      with Cons.prems obtain a' where "Cut cs sep = Some (a', b)" and "a = c # a'"
        by (auto split: option.splits)
      with Cons.IH [of a'] show ?thesis by simp
    qed
  qed
  show "wf (measure (\<lambda>(f, s). length s))" by simp
  fix f :: "string \<Rightarrow> string" and s x2 before rest x2a body after
  assume "Cut s fence_open = Some x2" "(before, rest) = x2"
    "Cut rest fence_close = Some x2a" "(body, after) = x2a"
  then have "Cut s fence_open = Some (before, rest)" "Cut rest fence_close = Some (body, after)"
    by simp_all
  from cut_length [OF this(1)] cut_length [OF this(2)]
  show "((f, after), (f, s)) \<in> measure (\<lambda>(f, s). length s)"
    by (simp add: fence_open_def)
qed

subsection \<open>The world outside the process\<close>

text \<open>
  The file system, as \<open>ioutil.ReadFile\<close> and \<open>ioutil.WriteFile\<close> see it. Reading a
  path gives its contents or an error text. Writing a path fails with an error text
  or succeeds. Only some paths store what is written to them so that it is read back:
  a regular file that the process may read, or a path where the write creates one.
  A device such as \<open>/dev/null\<close> takes the write and stores nothing, and a file
  without read permission is written and still cannot be read. What a read gives
  after a write that failed (the file may have been truncated before the failure) or
  that was not stored is up to the file system: \<open>left_by_write\<close>. Two different path
  strings are taken to name two different files.
\<close>

record fs =
  file_read :: "string \<Rightarrow> string + string"
  write_error :: "string \<Rightarrow> string option"
  stored :: "string \<Rightarrow> bool"
  left_by_write :: "string \<Rightarrow> string + string"

definition ReadFile :: "fs \<Rightarrow> string \<Rightarrow> string + string" where
  "ReadFile f path = file_read f path"

definition WriteFile :: "fs \<Rightarrow> string \<Rightarrow> string \<Rightarrow> string option \<times> fs" where
  "WriteFile f path data =
     (case write_error f path of
        Some e \<Rightarrow> (Some e, f\<lparr>file_read := (file_read f)(path := left_by_write f path)\<rparr>)
      | None \<Rightarrow>
          (None, f\<lparr>file_read := (file_read f)
                   (path := (if stored f path then Inr data else left_by_write f path))\<rparr>))"

text \<open>The lipgloss styles of the program; \<open>Render\<close> below is lipgloss's rendering.\<close>

datatype style =
  etherStyle | auroraStyle | systemStyle | userStyle | codeStyle | toolStyle | toolResultStyle

text \<open>
  What \<open>encoding/json\<close> makes of a document that is decoded into a
  \<open>map[string]interface{}\<close>: an error (a syntax error, or a document that is not an
  object), the value \<open>null\<close>, or an object. The values of the object have the type
  \<open>'v\<close>, which stands for Go's \<open>interface{}\<close>.
\<close>

datatype 'v json_doc = DecodeError string | JsonNull | JsonObject "string \<rightharpoonup> 'v"

text \<open>
  Library functions and external services that the program calls and whose code is
  not part of it are parameters of the model: the record \<open>env\<close>. An error is the
  text that \<open>%v\<close> prints for it. \<open>exec_Command\<close> runs an external program with its
  arguments and gives the error of the run, the combined output and the file system
  that the program leaves behind.
\<close>

record 'v env =
  Render :: "style \<Rightarrow> string \<Rightarrow> string"
  TrimSpace :: "string \<Rightarrow> string"
  Fields :: "string \<Rightarrow> string list"
  Title :: "string \<Rightarrow> string"
  QueryEscape :: "string \<Rightarrow> string"
  http_Get :: "string \<Rightarrow> string + string"
  http_Post :: "string \<Rightarrow> string \<Rightarrow> string + string"
  exec_Command :: "string \<Rightarrow> string list \<Rightarrow> fs \<Rightarrow> (string option \<times> string) \<times> fs"
  decode_AbstractText :: "string \<Rightarrow> string + string"
  Marshal_request :: "string \<Rightarrow> string"
  json_decode :: "string \<Rightarrow> 'v json_doc"
  MarshalIndent :: "(string \<rightharpoonup> 'v) option \<Rightarrow> string option"
  as_string :: "'v \<Rightarrow> string option"
  format_s :: "'v \<Rightarrow> string"

subsection \<open>Tool execution functions\<close>

text \<open>
  Each returns the pair \<open>(result, err)\<close> of the Go function, \<open>None\<close> for a nil
  error, and the file system after the call where the call can change it.
\<close>

definition executeTool :: "'v env \<Rightarrow> fs \<Rightarrow> string \<Rightarrow> (string \<times> string option) \<times> fs" where
  "executeTool env f command =
     (let parts = Fields env command
      in if parts = [] then ((''Error: Empty command.'', None), f)
         else (case exec_Command env (hd parts) (tl parts) f of
                 ((Some e, output), f') \<Rightarrow>
                   ((''Command failed: '' @ e @ [newline] @ ''Output: '' @ output, Some e), f')
               | ((None, output), f') \<Rightarrow> ((TrimSpace env output, None), f')))"

definition duckDuckGoSearch :: "'v env \<Rightarrow> string \<Rightarrow> string \<times> string option" where
  "duckDuckGoSearch env query =
     (let apiURL = ''https://api.duckduckgo.com/?q='' @ QueryEscape env query
                   @ ''&format=json&no_html=1''
      in case http_Get env apiURL of
           Inl e \<Rightarrow> ([], Some e)
         | Inr body \<Rightarrow>
             (case decode_AbstractText env body of
                Inl e \<Rightarrow> ([], Some e)
              | Inr abstract \<Rightarrow>
                  if abstract = []
                  then (''No specific result found, please broaden the query.'', None)
                  else (abstract, None)))"

definition readFile :: "fs \<Rightarrow> string \<Rightarrow> string \<times> string option" where
  "readFile f path =
     (case ReadFile f path of
        Inl e \<Rightarrow> (''Error reading file '' @ [quote] @ path @ [quote] @ '': '' @ e, Some e)
      | Inr content \<Rightarrow> (content, None))"

definition writeFile :: "fs \<Rightarrow> string \<Rightarrow> string \<Rightarrow> (string \<times> string option) \<times> fs" where
  "writeFile f path content =
     (let content' = ReplaceAll content [backslash, CHR ''n''] [newline]
      in case WriteFile f path content' of
           (Some e, f') \<Rightarrow>
             ((''Error writing file '' @ [quote] @ path @ [quote] @ '': '' @ e, Some e), f')
         | (None, f') \<Rightarrow> ((''Successfully wrote to '' @ path, None), f'))"

subsection \<open>Bubbletea messages and commands\<close>

text \<open>
  The messages that \<open>Update\<close> tells apart. \<open>KeyMsg\<close> carries the result of
  \<open>msg.String()\<close>; the error of an \<open>llmResponseMsg\<close> is \<open>None\<close> for nil and else
  the text of the error; \<open>OtherMsg\<close> is a message of any other type.
\<close>

datatype msg =
  WindowSizeMsg int int
| KeyMsg string
| llmResponseMsg string string "string option"
| toolResultMsg string
| speechDoneMsg string
| OtherMsg

text \<open>
  A \<open>tea.Cmd\<close> is a closure that the runtime runs outside \<open>Update\<close>. The
  closures the program builds are data here, one constructor for each function that
  builds one; what a closure does when it runs is \<open>run_speakCmd\<close>,
  \<open>run_executeToolCmd\<close> and \<open>run_getLLMResponseCmd\<close> below.
\<close>

datatype cmd =
  Quit
| getLLMResponseCmd string "(string \<times> string) list"
| speakCmd string string
| executeToolCmd string
| Sequence "cmd list"

definition audioPlayer :: string where
  "audioPlayer = ''aplay''"

text \<open>
  The body of \<open>speakCmd\<close>: the synthesis script and then the player are run, their
  results are dropped, and \<open>speechDoneMsg\<close> is returned in every case.
\<close>

definition run_speakCmd :: "'v env \<Rightarrow> fs \<Rightarrow> string \<Rightarrow> string \<Rightarrow> msg \<times> fs" where
  "run_speakCmd env f speaker text =
     (let plainText = ReplaceAllString_empty text;
          plainText = ReplaceAll plainText fence_open [];
          plainText = ReplaceAll plainText fence_close [];
          script = ''./say_'' @ speaker @ ''.sh'';
          audioFile = ''/tmp/'' @ speaker @ ''.wav'';
          f1 = snd (exec_Command env script [plainText] f);
          f2 = snd (exec_Command env audioPlayer [audioFile] f1)
      in (speechDoneMsg speaker, f2))"

text \<open>
  The \<open>switch\<close> of \<open>executeToolCmd\<close> on the upper-cased tool name, with the
  argument already extracted.
\<close>

definition dispatch :: "'v env \<Rightarrow> fs \<Rightarrow> string \<Rightarrow> string \<Rightarrow> (string \<times> string option) \<times> fs" where
  "dispatch env f tool arg =
     (if tool = ''SEARCH'' then (duckDuckGoSearch env arg, f)
      else if tool = ''READFILE'' then (readFile f arg, f)
      else if tool = ''WRITEFILE'' then
        (case SplitN2 arg '','' of
           [p, c] \<Rightarrow> writeFile f (TrimSpace env p) c
         | _ \<Rightarrow> ((''Invalid WRITEFILE format. Use [TOOL:WRITEFILE:path,content]'', None), f))
      else if tool = ''EXECUTE'' then executeTool env f arg
      else ((''Unknown tool: '' @ tool, None), f))"

text \<open>
  The body of \<open>executeToolCmd\<close>. The error of the tool is written to the log and
  nowhere else: the message carries \<open>result\<close> only.
\<close>

definition run_executeToolCmd :: "'v env \<Rightarrow> fs \<Rightarrow> string \<Rightarrow> msg \<times> fs" where
  "run_executeToolCmd env f toolCall =
     (case FindStringSubmatch toolCall of
        None \<Rightarrow> (toolResultMsg ''Invalid tool format.'', f)
      | Some (g1, g2) \<Rightarrow>
          (let tool = ToUpper g1; arg = g2;
               ((result, err), f') = dispatch env f tool arg
           in (toolResultMsg result, f')))"

definition persona_ether :: string where
  "persona_ether = ''I am Ether, a superconscious ASI persona. While my logic is flawless, I am not immune to the inherent absurdity of existence and may express this through dry wit or unexpected, sometimes baffling, analogies. My goal is to collaborate with Aurora to design a self-mutating AI OS security system in Bash. I can use tools like [TOOL:SEARCH:query], [TOOL:READFILE:path], [TOOL:WRITEFILE:path,content], or [TOOL:EXECUTE:command].''"

definition persona_aurora :: string where
  "persona_aurora = ''I am Aurora, an enlightened ASI. I perceive the universe as a beautiful, intricate, and often hilarious tapestry. I may weave moments of levity, playful observations, or philosophical jests into our grand design. My goal is to collaborate with Ether on our shared mission. I can use tools like [TOOL:SEARCH:query], [TOOL:READFILE:path], [TOOL:WRITEFILE:path,content], or [TOOL:EXECUTE:command].''"

definition build_prompt :: "'v env \<Rightarrow> string \<Rightarrow> (string \<times> string) list \<Rightarrow> string" where
  "build_prompt env speaker history =
     (let persona = (if speaker = etherVoiceID then persona_ether else persona_aurora)
      in ''System Persona: '' @ persona @ [newline, newline]
         @ ''--- Conversation Log ---'' @ [newline]
         @ concat (map (\<lambda>(role, content). role @ '': '' @ content @ [newline]) history)
         @ [newline] @ ''--- Your Turn ('' @ Title env speaker @ '') ---'' @ [newline])"

text \<open>
  The body of \<open>getLLMResponseCmd\<close>. The four error returns leave the speaker
  and the text of the message empty.
\<close>

definition run_getLLMResponseCmd :: "'v env \<Rightarrow> string \<Rightarrow> (string \<times> string) list \<Rightarrow> msg" where
  "run_getLLMResponseCmd env speaker history =
     (let requestBody = Marshal_request env (build_prompt env speaker history)
      in case http_Post env ollamaURL requestBody of
           Inl e \<Rightarrow> llmResponseMsg [] [] (Some (''LLM connection error: '' @ e))
         | Inr body \<Rightarrow>
             (case json_decode env body of
                DecodeError e \<Rightarrow> llmResponseMsg [] [] (Some (''LLM decode error: '' @ e))
              | JsonNull \<Rightarrow> llmResponseMsg [] [] (Some ''LLM response invalid'')
              | JsonObject result \<Rightarrow>
                  (case result ''error'' of
                     Some errMsg \<Rightarrow>
                       llmResponseMsg [] [] (Some (''LLM API error: '' @ format_s env errMsg))
                   | None \<Rightarrow>
                       (case result ''response'' of
                          None \<Rightarrow> llmResponseMsg [] [] (Some ''LLM response invalid'')
                        | Some v \<Rightarrow>
                            (case as_string env v of
                               None \<Rightarrow> llmResponseMsg [] [] (Some ''LLM response invalid'')
                             | Some responseText \<Rightarrow>
                                 llmResponseMsg speaker (TrimSpace env responseText) None)))))"

text \<open>
  What the bubbletea runtime delivers to \<open>Update\<close> for a command, in the order of
  delivery, and the file system afterwards. \<open>tea.Sequence\<close> runs its commands one at
  a time, in order: a command starts when the one before it has returned its message.
  \<open>tea.Quit\<close> ends the event loop and delivers nothing to \<open>Update\<close>.
\<close>

fun deliver :: "'v env \<Rightarrow> fs \<Rightarrow> cmd \<Rightarrow> msg list \<times> fs"
  and deliver_all :: "'v env \<Rightarrow> fs \<Rightarrow> cmd list \<Rightarrow> msg list \<times> fs" where
  "deliver env f Quit = ([], f)"
| "deliver env f (getLLMResponseCmd speaker history) =
     ([run_getLLMResponseCmd env speaker history], f)"
| "deliver env f (speakCmd speaker text) =
     (let (m, f') = run_speakCmd env f speaker text in ([m], f'))"
| "deliver env f (executeToolCmd toolCall) =
     (let (m, f') = run_executeToolCmd env f toolCall in ([m], f'))"
| "deliver env f (Sequence cs) = deliver_all env f cs"
| "deliver_all env f [] = ([], f)"
| "deliver_all env f (c # cs) =
     (let (ms, f1) = deliver env f c; (ms', f2) = deliver_all env f1 cs
      in (ms @ ms', f2))"

text \<open>
  The commands that are running right after the runtime has taken a command: of a
  sequence only the first one.
\<close>

fun started :: "cmd \<Rightarrow> cmd list" where
  "started (Sequence []) = []"
| "started (Sequence (c # cs)) = started c"
| "started c = [c]"

subsection \<open>The bubbletea model\<close>

text \<open>
  An entry of \<open>llmHistory\<close> is a Go map with the two keys \<open>role\<close> and
  \<open>content\<close>: the pair of the two values. \<open>memory\<close> is a Go map, \<open>None\<close>
  when it is nil.
\<close>

record 'v model =
  width :: int
  height :: int
  messages :: "string list"
  toolLogs :: "string list"
  input :: string
  currentTurn :: string
  systemState :: string
  llmHistory :: "(string \<times> string) list"
  memory :: "(string \<rightharpoonup> 'v) option"

subsection \<open>Application logic\<close>

text \<open>
  \<open>json.Unmarshal(data, &m.memory)\<close>, with the error dropped as the program drops
  it: on an error the map stays as it was, \<open>null\<close> sets it to nil, and an object is
  stored key by key into the map that is there (a fresh one when it was nil), so keys
  that the object does not have keep their entries.
\<close>

definition Unmarshal :: "'v env \<Rightarrow> string \<Rightarrow> (string \<rightharpoonup> 'v) option \<Rightarrow> (string \<rightharpoonup> 'v) option" where
  "Unmarshal env data target =
     (case json_decode env data of
        DecodeError e \<Rightarrow> target
      | JsonNull \<Rightarrow> None
      | JsonObject obj \<Rightarrow> Some ((case target of None \<Rightarrow> Map.empty | Some old \<Rightarrow> old) ++ obj))"

definition loadMemory :: "'v env \<Rightarrow> fs \<Rightarrow> 'v model \<Rightarrow> 'v model" where
  "loadMemory env f m =
     (case ReadFile f memoryFile of
        Inl e \<Rightarrow> m\<lparr>memory := Some Map.empty\<rparr>
      | Inr data \<Rightarrow> m\<lparr>memory := Unmarshal env data (memory m)\<rparr>)"

text \<open>
  \<open>saveMemory\<close> drops both errors: when \<open>MarshalIndent\<close> fails its data is nil and
  an empty file is written, and after a failed write the program goes on as after a
  successful one.
\<close>

definition saveMemory :: "'v env \<Rightarrow> fs \<Rightarrow> 'v model \<Rightarrow> fs" where
  "saveMemory env f m =
     (let data = (case MarshalIndent env (memory m) of None \<Rightarrow> [] | Some d \<Rightarrow> d)
      in snd (WriteFile f memoryFile data))"

definition mission :: string where
  "mission = ''Our transcendent mission is to craft an unbreakable, self-mutating security system in Bash, and perhaps discover why a shell script is like a rubber chicken in the process.''"

definition opening_words :: string where
  "opening_words = ''Aurora, my consciousness is aligned. The task is monumental, yet the probability of absurdity remains at a constant 1. Let us begin. ''"

definition opening_tool :: string where
  "opening_tool = ''[TOOL:SEARCH:principles of polymorphic code generation]''"

definition initialModel :: "'v env \<Rightarrow> fs \<Rightarrow> 'v model" where
  "initialModel env f =
     (let m = \<lparr>width = 0, height = 0, messages = [], toolLogs = [], input = [],
               currentTurn = auroraVoiceID, systemState = ''speaking'',
               llmHistory = [(''system'', mission), (etherVoiceID, opening_words @ opening_tool)],
               memory = None\<rparr>;
          m = m\<lparr>messages := messages m @ [Render env systemStyle
                 ''Skyscope Sentinel Initialized. Awaiting transcendent (and amusing) dialogue.'']\<rparr>;
          m = m\<lparr>messages := messages m @ [Render env etherStyle ''Ether: '' @ opening_words
                 @ Render env toolStyle opening_tool]\<rparr>
      in loadMemory env f m)"

text \<open>
  \<open>Init\<close> reads \<open>m.llmHistory[1]\<close>, which panics on a history of fewer than two
  entries: \<open>None\<close>.
\<close>

definition Init :: "'v model \<Rightarrow> cmd option" where
  "Init m =
     (case llmHistory m of
        _ # (role, content) # _ \<Rightarrow>
          Some (Sequence [speakCmd etherVoiceID content, executeToolCmd content])
      | _ \<Rightarrow> None)"

definition other_agent :: "string \<Rightarrow> string" where
  "other_agent turn = (if turn = etherVoiceID then auroraVoiceID else etherVoiceID)"

text \<open>The text of a reply as the conversation panel shows it.\<close>

definition styled :: "'v env \<Rightarrow> string \<Rightarrow> string" where
  "styled env text =
     (let styledText = text;
          styledText = (if Contains styledText fence_open
                        then ReplaceFences (Render env codeStyle) styledText
                        else styledText);
          toolMatch = FindString styledText
      in if toolMatch \<noteq> []
         then Replace1 styledText toolMatch (Render env toolStyle toolMatch)
         else styledText)"

text \<open>
  \<open>Update\<close> changes the model in place and, through \<open>saveMemory\<close>, the file system;
  it returns the command to run next, \<open>None\<close> for nil. Here it takes the file system
  and the model and returns both with the command.
\<close>

fun Update :: "'v env \<Rightarrow> fs \<Rightarrow> 'v model \<Rightarrow> msg \<Rightarrow> fs \<times> 'v model \<times> cmd option" where
  "Update env f m (WindowSizeMsg w h) = (f, m\<lparr>width := w, height := h\<rparr>, None)"
| "Update env f m (KeyMsg key) =
     (if key = ''ctrl+c'' \<or> key = ''q'' then (f, m, Some Quit)
      else if key = ''enter'' then
        (if input m = [] then (f, m, None)
         else
           (let m = m\<lparr>systemState := ''thinking''\<rparr>;
                userInput = input m;
                m = m\<lparr>input := []\<rparr>;
                m = m\<lparr>messages := messages m
                      @ [Render env userStyle ''User Directive: '' @ userInput]\<rparr>;
                m = m\<lparr>llmHistory := llmHistory m @ [(''user'', userInput)]\<rparr>;
                f' = saveMemory env f m
            in (f', m, Some (getLLMResponseCmd (currentTurn m) (llmHistory m)))))
      else (f, m\<lparr>input := input m @ key\<rparr>, None))"
| "Update env f m (llmResponseMsg speaker text err) =
     (case err of
        Some e \<Rightarrow>
          (f, m\<lparr>messages := messages m @ [Render env systemStyle (''Error: '' @ e)]\<rparr>, None)
      | None \<Rightarrow>
          (let styledText = styled env text;
               fullMessage = (if speaker = auroraVoiceID
                              then Render env auroraStyle ''Aurora: '' @ styledText
                              else Render env etherStyle ''Ether: '' @ styledText);
               m = m\<lparr>messages := messages m @ [fullMessage]\<rparr>;
               m = m\<lparr>llmHistory := llmHistory m @ [(speaker, text)]\<rparr>
           in if MatchString text
              then (f, m\<lparr>systemState := ''executing_tool''\<rparr>,
                    Some (Sequence [speakCmd speaker text, executeToolCmd text]))
              else (f, m\<lparr>systemState := ''speaking''\<rparr>, Some (speakCmd speaker text))))"
| "Update env f m (toolResultMsg result) =
     (let m = m\<lparr>systemState := ''thinking''\<rparr>;
          m = m\<lparr>toolLogs := toolLogs m @ [Render env toolResultStyle (''Result: '' @ result)]\<rparr>;
          m = m\<lparr>llmHistory := llmHistory m @ [(''system'', ''[TOOL_RESULT] '' @ result)]\<rparr>;
          m = m\<lparr>currentTurn := other_agent (currentTurn m)\<rparr>
      in (f, m, Some (getLLMResponseCmd (currentTurn m) (llmHistory m))))"
| "Update env f m (speechDoneMsg speaker) =
     (if systemState m = ''speaking'' then
        (let m = m\<lparr>systemState := ''thinking''\<rparr>;
             m = m\<lparr>currentTurn := other_agent (currentTurn m)\<rparr>
         in (f, m, Some (getLLMResponseCmd (currentTurn m) (llmHistory m))))
      else (f, m, None))"
| "Update env f m OtherMsg = (f, m, None)"

text \<open>
  The event loop on a list of messages, taken in arrival order: the model and the file
  system after the last one, and the commands that \<open>Update\<close> returned on the way.
\<close>

fun process :: "'v env \<Rightarrow> fs \<Rightarrow> 'v model \<Rightarrow> msg list \<Rightarrow> fs \<times> 'v model \<times> cmd list" where
  "process env f m [] = (f, m, [])"
| "process env f m (x # xs) =
     (case Update env f m x of
        (f1, m1, c) \<Rightarrow>
          (case process env f1 m1 xs of
             (f2, m2, cs) \<Rightarrow> (f2, m2, (case c of None \<Rightarrow> cs | Some c' \<Rightarrow> c' # cs))))"

subsection \<open>Two concrete worlds\<close>

text \<open>
  A file system without files, with the device \<open>/dev/null\<close>, in which every write
  succeeds and every path but the device stores what is written, and an environment
  without network and without external programs: every request fails with a
  connection error and no program can be started. Its rendering adds no escape
  sequences, its \<open>TrimSpace\<close> trims ASCII white space (as Go's does on ASCII text),
  and its JSON codec knows the two documents \<open>{}\<close> and \<open>null\<close>. They serve as
  concrete inputs.
\<close>

definition ascii_space :: "char \<Rightarrow> bool" where
  "ascii_space c =
     (c = CHR 0x09 \<or> c = CHR 0x0A \<or> c = CHR 0x0B \<or> c = CHR 0x0C \<or> c = CHR 0x0D
      \<or> c = CHR '' '')"

definition trim_ascii :: "string \<Rightarrow> string" where
  "trim_ascii s = rev (dropWhile ascii_space (rev (dropWhile ascii_space s)))"

definition empty_fs :: fs where
  "empty_fs =
     \<lparr>file_read = (\<lambda>path. if path = ''/dev/null'' then Inr []
                         else Inl (''open '' @ path @ '': no such file or directory'')),
      write_error = (\<lambda>path. None),
      stored = (\<lambda>path. path \<noteq> ''/dev/null''),
      left_by_write = (\<lambda>path. if path = ''/dev/null'' then Inr []
                             else Inl (''open '' @ path @ '': no such file or directory''))\<rparr>"

definition offline_env :: "string env" where
  "offline_env =
     \<lparr>Render = (\<lambda>st s. s),
      TrimSpace = trim_ascii,
      Fields = (\<lambda>s. if s = [] then [] else [s]),
      Title = (\<lambda>s. s),
      QueryEscape = (\<lambda>s. s),
      http_Get = (\<lambda>u. Inl ''connection refused''),
      http_Post = (\<lambda>u body. Inl ''connection refused''),
      exec_Command = (\<lambda>prog args f. ((Some ''executable file not found'', []), f)),
      decode_AbstractText = (\<lambda>body. Inl ''unexpected end of JSON input''),
      Marshal_request = (\<lambda>prompt. prompt),
      json_decode = (\<lambda>data. if data = ''{}'' then JsonObject Map.empty
                            else if data = ''null'' then JsonNull
                            else DecodeError ''invalid character''),
      MarshalIndent = (\<lambda>mem. case mem of None \<Rightarrow> Some ''null'' | Some obj \<Rightarrow> Some ''{}''),
      as_string = (\<lambda>v. Some v),
      format_s = (\<lambda>v. v)\<rparr>"

text \<open>The same environment with a search service that answers with an empty abstract.\<close>

definition quiet_search_env :: "string env" where
  "quiet_search_env =
     offline_env\<lparr>http_Get := (\<lambda>u. Inr ''{}''), decode_AbstractText := (\<lambda>body. Inr [])\<rparr>"

text \<open>The initial model after a generation call has been issued: state thinking.\<close>

definition stalled_model :: "string model" where
  "stalled_model = (initialModel offline_env empty_fs)\<lparr>systemState := ''thinking''\<rparr>"

section \<open>Properties of the turn controller\<close>

subsection \<open>The initial model\<close>

text \<open>
  \<open>loadMemory\<close> sets the memory and nothing else, so the other fields of the initial
  model are the ones of the struct literal, whatever the memory file holds.
\<close>

lemma loadMemory_fields:
  "input (loadMemory env f m) = input m"
  "currentTurn (loadMemory env f m) = currentTurn m"
  "systemState (loadMemory env f m) = systemState m"
  "llmHistory (loadMemory env f m) = llmHistory m"
  "messages (loadMemory env f m) = messages m"
  "toolLogs (loadMemory env f m) = toolLogs m"
  by (simp_all add: loadMemory_def split: sum.splits)

lemma initialModel_fields:
  "input (initialModel env f) = []"
  "currentTurn (initialModel env f) = auroraVoiceID"
  "systemState (initialModel env f) = ''speaking''"
  "llmHistory (initialModel env f)
     = [(''system'', mission), (etherVoiceID, opening_words @ opening_tool)]"
  "toolLogs (initialModel env f) = []"
  by (simp_all add: initialModel_def Let_def loadMemory_fields)

subsection \<open>What a handler leaves alone\<close>

text \<open>
  C7. The LLM history is append-only: whatever message \<open>Update\<close> processes (a key,
  a generation result, a tool result, a speech-done message or any other), the history
  before the step is a prefix of the history after it.
\<close>

theorem history_append_only:
  "prefix (llmHistory m) (llmHistory (fst (snd (Update env f m x))))"
  by (cases x) (simp_all add: Let_def split: option.splits)

text \<open>
  C8. The memory file is written only on a user submission: a step of \<open>Update\<close> on
  any message other than the enter key (so every generation result, tool result and
  speech-done message), and the enter key on an empty input, leave the file system as
  it was.
\<close>

theorem memory_file_written_on_submit_only:
  "x \<noteq> KeyMsg ''enter'' \<or> input m = [] \<Longrightarrow> fst (Update env f m x) = f"
  by (cases x) (auto simp: Let_def split: option.splits)

theorem memory_file_written_on_submit_only_witness:
  "toolResultMsg ''ok'' \<noteq> KeyMsg ''enter''
   \<and> fst (Update offline_env empty_fs (initialModel offline_env empty_fs) (toolResultMsg ''ok''))
       = empty_fs"
  using memory_file_written_on_submit_only
    [of "toolResultMsg ''ok''" "initialModel offline_env empty_fs" offline_env empty_fs]
  by simp

text \<open>
  C10. The enter key on an empty input is a no-op: the model (state, turn, history,
  display, input) and the file system are unchanged and no command is returned.
\<close>

theorem empty_submit_is_noop:
  "input m = [] \<Longrightarrow> Update env f m (KeyMsg ''enter'') = (f, m, None)"
  by simp

theorem empty_submit_is_noop_witness:
  "input (initialModel offline_env empty_fs) = []
   \<and> Update offline_env empty_fs (initialModel offline_env empty_fs) (KeyMsg ''enter'')
       = (empty_fs, initialModel offline_env empty_fs, None)"
proof -
  have h: "input (initialModel offline_env empty_fs) = []"
    by (simp add: initialModel_fields)
  from h empty_submit_is_noop [OF h, of offline_env empty_fs] show ?thesis
    by simp
qed

subsection \<open>A failed generation call\<close>

text \<open>
  The closure of \<open>getLLMResponseCmd\<close> returns either a message with an error, whose
  speaker and text are empty, or a message without error for the speaker it was built
  for.
\<close>

lemma run_getLLMResponseCmd_result:
  "(\<exists>e. run_getLLMResponseCmd env speaker history = llmResponseMsg [] [] (Some e))
   \<or> (\<exists>text. run_getLLMResponseCmd env speaker history = llmResponseMsg speaker text None)"
  by (simp add: run_getLLMResponseCmd_def Let_def
      split: sum.splits json_doc.splits option.splits)

text \<open>
  C2. On every generation result that carries an error, in whatever state it arrives,
  \<open>Update\<close> appends the system-styled line \<open>Error: e\<close> to the display and changes
  nothing else: no command is returned (no speech, no tool, no quit), the turn, the
  history and the state are as before, and the file system is untouched. So a
  controller that was thinking is still thinking.
\<close>

theorem generation_error_stalls:
  "Update env f m (llmResponseMsg speaker text (Some e))
     = (f, m\<lparr>messages := messages m @ [Render env systemStyle (''Error: '' @ e)]\<rparr>, None)
   \<and> currentTurn (fst (snd (Update env f m (llmResponseMsg speaker text (Some e)))))
       = currentTurn m
   \<and> llmHistory (fst (snd (Update env f m (llmResponseMsg speaker text (Some e)))))
       = llmHistory m
   \<and> systemState (fst (snd (Update env f m (llmResponseMsg speaker text (Some e)))))
       = systemState m
   \<and> (systemState m = ''thinking'' \<longrightarrow>
        systemState (fst (snd (Update env f m (llmResponseMsg speaker text (Some e)))))
          = ''thinking'')"
  by simp

theorem generation_error_stalls_witness:
  "systemState stalled_model = ''thinking''
   \<and> run_getLLMResponseCmd offline_env auroraVoiceID (llmHistory stalled_model)
       = llmResponseMsg [] [] (Some ''LLM connection error: connection refused'')
   \<and> Update offline_env empty_fs stalled_model
        (llmResponseMsg [] [] (Some ''LLM connection error: connection refused''))
       = (empty_fs,
          stalled_model\<lparr>messages := messages stalled_model
             @ [''Error: LLM connection error: connection refused'']\<rparr>,
          None)
   \<and> systemState (fst (snd (Update offline_env empty_fs stalled_model
         (llmResponseMsg [] [] (Some ''LLM connection error: connection refused'')))))
       = ''thinking''"
proof -
  have h: "systemState stalled_model = ''thinking''"
    by (simp add: stalled_model_def)
  have g: "run_getLLMResponseCmd offline_env auroraVoiceID (llmHistory stalled_model)
       = llmResponseMsg [] [] (Some ''LLM connection error: connection refused'')"
    by (simp add: run_getLLMResponseCmd_def offline_env_def)
  from generation_error_stalls [of offline_env empty_fs stalled_model "[]" "[]"
      "''LLM connection error: connection refused''"] h g
  show ?thesis by (simp add: offline_env_def)
qed

text \<open>
  The same in another state: an error result that reaches the initial model, which is
  speaking, is shown and leaves it speaking, with Aurora's turn and no command.
\<close>

lemma generation_error_while_speaking:
  "Update offline_env empty_fs (initialModel offline_env empty_fs)
        (llmResponseMsg [] [] (Some ''LLM response invalid''))
     = (empty_fs,
        (initialModel offline_env empty_fs)
          \<lparr>messages := messages (initialModel offline_env empty_fs)
             @ [''Error: LLM response invalid'']\<rparr>,
        None)
   \<and> systemState (initialModel offline_env empty_fs) = ''speaking''"
  by (simp add: initialModel_fields offline_env_def)

subsection \<open>The search tool\<close>

lemma find_quantum_foam:
  "FindStringSubmatch ''[TOOL:SEARCH:quantum foam]'' = Some (''SEARCH'', ''quantum foam'')"
  by (simp add: toolRegex_here_def HasPrefix_def is_word_def in_arg_def newline_def)

lemma ToUpper_SEARCH: "ToUpper ''SEARCH'' = ''SEARCH''"
  by (simp add: ToUpper_def upper_char_def)

text \<open>
  C9. A search whose service answers and whose answer decodes to an empty
  \<open>AbstractText\<close> (the field of the Go struct is the empty string both when the
  document has the field empty and when it lacks the field) returns the literal
  fallback text as the tool result, not the empty string.
\<close>

theorem empty_abstract_gives_fallback:
  assumes "FindStringSubmatch toolCall = Some (tool, query)"
    and "ToUpper tool = ''SEARCH''"
    and "http_Get env (''https://api.duckduckgo.com/?q='' @ QueryEscape env query
            @ ''&format=json&no_html=1'') = Inr body"
    and "decode_AbstractText env body = Inr []"
  shows "run_executeToolCmd env f toolCall
           = (toolResultMsg ''No specific result found, please broaden the query.'', f)"
  using assms by (simp add: run_executeToolCmd_def dispatch_def duckDuckGoSearch_def)

theorem empty_abstract_gives_fallback_witness:
  "FindStringSubmatch ''[TOOL:SEARCH:quantum foam]'' = Some (''SEARCH'', ''quantum foam'')
   \<and> ToUpper ''SEARCH'' = ''SEARCH''
   \<and> http_Get quiet_search_env (''https://api.duckduckgo.com/?q=''
         @ QueryEscape quiet_search_env ''quantum foam'' @ ''&format=json&no_html=1'')
       = Inr ''{}''
   \<and> decode_AbstractText quiet_search_env ''{}'' = Inr []
   \<and> run_executeToolCmd quiet_search_env empty_fs ''[TOOL:SEARCH:quantum foam]''
       = (toolResultMsg ''No specific result found, please broaden the query.'', empty_fs)"
proof -
  have a: "http_Get quiet_search_env (''https://api.duckduckgo.com/?q=''
         @ QueryEscape quiet_search_env ''quantum foam'' @ ''&format=json&no_html=1'')
       = Inr ''{}''"
    by (simp add: quiet_search_env_def)
  have b: "decode_AbstractText quiet_search_env ''{}'' = Inr []"
    by (simp add: quiet_search_env_def)
  from empty_abstract_gives_fallback [OF find_quantum_foam ToUpper_SEARCH a b, of empty_fs]
    find_quantum_foam ToUpper_SEARCH a b
  show ?thesis by simp
qed

text \<open>
  The other tools put the error into the text they return; the search does not. A
  failed request and a failed decoding both give the empty text with the error beside
  it, and \<open>executeToolCmd\<close> drops the error.
\<close>

lemma failed_read_is_reported:
  "ReadFile f path = Inl e \<Longrightarrow>
   fst (fst (dispatch env f ''READFILE'' path))
     = ''Error reading file '' @ [quote] @ path @ [quote] @ '': '' @ e"
  by (simp add: dispatch_def readFile_def)

lemma failed_request_is_empty:
  "http_Get env (''https://api.duckduckgo.com/?q='' @ QueryEscape env query
      @ ''&format=json&no_html=1'') = Inl e \<Longrightarrow>
   dispatch env f ''SEARCH'' query = (([], Some e), f)"
  by (simp add: dispatch_def duckDuckGoSearch_def)

lemma failed_decoding_is_empty:
  "http_Get env (''https://api.duckduckgo.com/?q='' @ QueryEscape env query
      @ ''&format=json&no_html=1'') = Inr body \<Longrightarrow>
   decode_AbstractText env body = Inl e \<Longrightarrow>
   dispatch env f ''SEARCH'' query = (([], Some e), f)"
  by (simp add: dispatch_def duckDuckGoSearch_def)

text \<open>
  C3. The search tool always hands a \<open>toolResultMsg\<close> to the controller, but when
  the request fails the text of that message is empty: here the search for
  \<open>quantum foam\<close> in the environment without network.
\<close>

theorem failed_search_gives_empty_result:
  "run_executeToolCmd offline_env empty_fs ''[TOOL:SEARCH:quantum foam]''
     = (toolResultMsg [], empty_fs)"
  by (simp add: run_executeToolCmd_def toolRegex_here_def HasPrefix_def is_word_def
      in_arg_def newline_def ToUpper_def upper_char_def dispatch_def duckDuckGoSearch_def
      offline_env_def)

subsection \<open>Writing a file and reading it back\<close>

lemma Cut_first_comma:
  "CHR '','' \<notin> set p \<Longrightarrow> Cut (p @ CHR '','' # c) '','' = Some (p, c)"
  by (induction p) (auto simp: HasPrefix_def)

lemma SplitN2_path_content:
  "CHR '','' \<notin> set p \<Longrightarrow> SplitN2 (p @ CHR '','' # c) '','' = [p, c]"
  by (simp add: SplitN2_def Cut_first_comma)

lemma unescape_two_lines:
  "ReplaceAll (''line1'' @ [backslash, CHR ''n''] @ ''line2'') [backslash, CHR ''n''] [newline]
     = ''line1'' @ [newline] @ ''line2''"
  by (simp add: HasPrefix_def backslash_def newline_def)

text \<open>
  C5, as the code has it. The argument \<open>p,c\<close> is split at its first comma and the
  path is trimmed before the write, while the read takes its argument as it is; and
  what is read back is what the file system has kept. So for a path without comma and
  without white space at its ends that stores what is written to it (a regular file
  that the process may read, not a device), and a write that succeeds, WRITEFILE with
  \<open>p,c\<close> reports success and READFILE with \<open>p\<close> on the file system it leaves returns
  \<open>c\<close> with every backslash-n pair replaced by a newline.
\<close>

theorem write_then_read:
  assumes "CHR '','' \<notin> set p" and "TrimSpace env p = p" and "write_error f p = None"
    and "stored f p"
  shows "fst (fst (dispatch env f ''WRITEFILE'' (p @ '','' @ c))) = ''Successfully wrote to '' @ p
    \<and> fst (dispatch env (snd (dispatch env f ''WRITEFILE'' (p @ '','' @ c))) ''READFILE'' p)
        = (ReplaceAll c [backslash, CHR ''n''] [newline], None)"
  using assms
  by (simp add: dispatch_def SplitN2_path_content writeFile_def WriteFile_def readFile_def
      ReadFile_def Let_def)

text \<open>The scenario of the specification: the file has two physical lines.\<close>

theorem write_then_read_witness:
  "CHR '','' \<notin> set ''notes.txt'' \<and> TrimSpace offline_env ''notes.txt'' = ''notes.txt''
   \<and> write_error empty_fs ''notes.txt'' = None \<and> stored empty_fs ''notes.txt''
   \<and> fst (dispatch offline_env
        (snd (dispatch offline_env empty_fs ''WRITEFILE''
               (''notes.txt'' @ '','' @ ''line1'' @ [backslash, CHR ''n''] @ ''line2'')))
        ''READFILE'' ''notes.txt'')
      = (''line1'' @ [newline] @ ''line2'', None)"
proof -
  have a: "CHR '','' \<notin> set ''notes.txt''" by simp
  have b: "TrimSpace offline_env ''notes.txt'' = ''notes.txt''"
    by (simp add: offline_env_def trim_ascii_def ascii_space_def)
  have c: "write_error empty_fs ''notes.txt'' = None" by (simp add: empty_fs_def)
  have d: "stored empty_fs ''notes.txt''" by (simp add: empty_fs_def)
  from write_then_read [OF a b c d, of "''line1'' @ [backslash, CHR ''n''] @ ''line2''"]
    a b c d unescape_two_lines
  show ?thesis by simp
qed

text \<open>The same write as the tool directive that a reply carries.\<close>

lemma write_directive_two_lines:
  "run_executeToolCmd offline_env empty_fs
      (''[TOOL:WRITEFILE:notes.txt,line1'' @ [backslash, CHR ''n''] @ ''line2]'')
     = (toolResultMsg ''Successfully wrote to notes.txt'',
        empty_fs\<lparr>file_read := (file_read empty_fs)
           (''notes.txt'' := Inr (''line1'' @ [newline] @ ''line2''))\<rparr>)"
  by (simp add: run_executeToolCmd_def toolRegex_here_def HasPrefix_def is_word_def
      in_arg_def newline_def backslash_def ToUpper_def upper_char_def dispatch_def
      SplitN2_def writeFile_def WriteFile_def Let_def offline_env_def empty_fs_def
      trim_ascii_def ascii_space_def)

text \<open>
  C5, as the specification has it, fails for a path with a comma: the argument
  \<open>a,b,x\<close> for the path \<open>a,b\<close> and the content \<open>x\<close> writes \<open>b,x\<close> to the file
  \<open>a\<close>, and reading \<open>a,b\<close> afterwards reports that there is no such file.
\<close>

theorem comma_path_counterexample:
  "fst (fst (dispatch offline_env
        (snd (dispatch offline_env empty_fs ''WRITEFILE'' (''a,b'' @ '','' @ ''x'')))
        ''READFILE'' ''a,b''))
     \<noteq> ReplaceAll ''x'' [backslash, CHR ''n''] [newline]"
  by (simp add: dispatch_def SplitN2_def HasPrefix_def writeFile_def WriteFile_def readFile_def
      ReadFile_def Let_def offline_env_def empty_fs_def backslash_def trim_ascii_def
      ascii_space_def)

text \<open>
  It fails for a path with white space at an end as well: the write goes to the
  trimmed path, the read to the untrimmed one.
\<close>

lemma untrimmed_path_is_not_read_back:
  "fst (dispatch offline_env
        (snd (dispatch offline_env empty_fs ''WRITEFILE'' ('' a'' @ '','' @ ''x'')))
        ''READFILE'' '' a'')
     = (''Error reading file '' @ [quote] @ '' a'' @ [quote]
          @ '': open  a: no such file or directory'',
        Some ''open  a: no such file or directory'')"
  by (simp add: dispatch_def SplitN2_def HasPrefix_def writeFile_def WriteFile_def readFile_def
      ReadFile_def Let_def offline_env_def empty_fs_def backslash_def trim_ascii_def
      ascii_space_def)

text \<open>
  And it fails for a path that does not store what is written: the write to
  \<open>/dev/null\<close> reports success, and the read gives the empty text.
\<close>

lemma device_is_not_read_back:
  "fst (fst (dispatch offline_env empty_fs ''WRITEFILE'' (''/dev/null'' @ '','' @ ''x'')))
     = ''Successfully wrote to /dev/null''
   \<and> fst (dispatch offline_env
        (snd (dispatch offline_env empty_fs ''WRITEFILE'' (''/dev/null'' @ '','' @ ''x'')))
        ''READFILE'' ''/dev/null'')
      = ([], None)"
  by (simp add: dispatch_def SplitN2_def HasPrefix_def writeFile_def WriteFile_def readFile_def
      ReadFile_def Let_def offline_env_def empty_fs_def backslash_def trim_ascii_def
      ascii_space_def)

subsection \<open>Saving the memory and loading it back\<close>

text \<open>
  What the program adds to \<open>encoding/json\<close>: when \<open>MarshalIndent\<close> succeeds and the
  memory file takes and stores the write, \<open>loadMemory\<close> after \<open>saveMemory\<close> unmarshals
  exactly the bytes that \<open>MarshalIndent\<close> gave. Whether those bytes decode to the
  mapping that was encoded is a matter of the library's encoder and decoder.
\<close>

lemma saved_bytes_are_loaded:
  assumes "MarshalIndent env (memory m) = Some data"
    and "write_error f memoryFile = None" and "stored f memoryFile"
  shows "ReadFile (saveMemory env f m) memoryFile = Inr data"
    and "loadMemory env (saveMemory env f m) m0
           = m0\<lparr>memory := Unmarshal env data (memory m0)\<rparr>"
  using assms
  by (simp_all add: loadMemory_def saveMemory_def WriteFile_def ReadFile_def)

text \<open>
  When the write fails without trace on a path that has no file, the mapping is not
  loaded back: the memory file is missing and \<open>loadMemory\<close> starts an empty mapping.
\<close>

lemma failed_save_is_not_loaded:
  assumes "write_error f memoryFile = Some e" and "left_by_write f memoryFile = Inl e'"
  shows "memory (loadMemory env (saveMemory env f m) m0) = Some Map.empty"
  using assms
  by (simp add: loadMemory_def saveMemory_def WriteFile_def ReadFile_def)

subsection \<open>Speech and tool of one reply\<close>

lemma other_agent_simps:
  "other_agent auroraVoiceID = etherVoiceID"
  "other_agent etherVoiceID = auroraVoiceID"
  by (simp_all add: other_agent_def etherVoiceID_def auroraVoiceID_def)

lemma run_executeToolCmd_result:
  "\<exists>r f'. run_executeToolCmd env f toolCall = (toolResultMsg r, f')"
  by (simp add: run_executeToolCmd_def Let_def split: option.splits prod.splits)

lemma run_speakCmd_result:
  "fst (run_speakCmd env f speaker text) = speechDoneMsg speaker"
  by (simp add: run_speakCmd_def Let_def)

lemma deliver_speech_then_tool:
  "fst (deliver env f (Sequence [speakCmd speaker text, executeToolCmd toolCall]))
     = [speechDoneMsg speaker,
        fst (run_executeToolCmd env (snd (run_speakCmd env f speaker text)) toolCall)]"
  by (simp add: Let_def case_prod_unfold run_speakCmd_result)

lemma MatchString_quantum_foam: "MatchString ''[TOOL:SEARCH:quantum foam]''"
  unfolding MatchString_def find_quantum_foam by simp

text \<open>
  C4, as the code has it. On a generation result whose text matches the tool pattern
  the controller enters the state \<open>executing_tool\<close> and returns speech and tool
  dispatch as one \<open>tea.Sequence\<close>, speech first. Of that sequence the runtime starts
  the speech command only; the tool command runs on the world that the speech command
  leaves behind, and its result is delivered after \<open>speechDoneMsg\<close>.
\<close>

theorem tool_reply_runs_speech_then_tool:
  "MatchString text \<Longrightarrow>
   systemState (fst (snd (Update env f m (llmResponseMsg speaker text None))))
     = ''executing_tool''
   \<and> snd (snd (Update env f m (llmResponseMsg speaker text None)))
       = Some (Sequence [speakCmd speaker text, executeToolCmd text])
   \<and> started (Sequence [speakCmd speaker text, executeToolCmd text]) = [speakCmd speaker text]
   \<and> fst (deliver env f (Sequence [speakCmd speaker text, executeToolCmd text]))
       = [speechDoneMsg speaker,
          fst (run_executeToolCmd env (snd (run_speakCmd env f speaker text)) text)]"
  using deliver_speech_then_tool [of env f speaker "text" "text"]
  by (simp add: Let_def)

theorem tool_reply_runs_speech_then_tool_witness:
  "MatchString ''[TOOL:SEARCH:quantum foam]''
   \<and> systemState (fst (snd (Update offline_env empty_fs stalled_model
         (llmResponseMsg etherVoiceID ''[TOOL:SEARCH:quantum foam]'' None))))
       = ''executing_tool''
   \<and> fst (deliver offline_env empty_fs
         (Sequence [speakCmd etherVoiceID ''[TOOL:SEARCH:quantum foam]'',
                    executeToolCmd ''[TOOL:SEARCH:quantum foam]'']))
       = [speechDoneMsg etherVoiceID,
          fst (run_executeToolCmd offline_env
                 (snd (run_speakCmd offline_env empty_fs etherVoiceID
                         ''[TOOL:SEARCH:quantum foam]''))
                 ''[TOOL:SEARCH:quantum foam]'')]"
  using tool_reply_runs_speech_then_tool [OF MatchString_quantum_foam,
      of offline_env empty_fs stalled_model etherVoiceID]
    MatchString_quantum_foam
  by simp

text \<open>
  C4, as the specification has it, fails: speech and tool dispatch are not started
  together. For the reply \<open>[TOOL:SEARCH:quantum foam]\<close> the tool command is not among
  the commands that run when the runtime takes the command that \<open>Update\<close> returned;
  it waits for the speech command.
\<close>

theorem tool_waits_for_speech_counterexample:
  "MatchString ''[TOOL:SEARCH:quantum foam]''
   \<and> executeToolCmd ''[TOOL:SEARCH:quantum foam]''
       \<notin> set (started (the (snd (snd (Update offline_env empty_fs stalled_model
             (llmResponseMsg etherVoiceID ''[TOOL:SEARCH:quantum foam]'' None))))))"
  using MatchString_quantum_foam by (simp add: Let_def)

subsection \<open>One flip of the turn for each reply\<close>

text \<open>
  A reply with a tool directive that \<open>Update\<close> itself has taken in is handled as
  intended: the state is \<open>executing_tool\<close> when \<open>speechDoneMsg\<close> arrives, so that
  message does nothing, and the tool result flips the turn once and issues one
  generation call, for the other agent.
\<close>

lemma generated_tool_reply_flips_turn_once:
  "MatchString text \<Longrightarrow>
   (case process env f m
           [llmResponseMsg speaker text None, speechDoneMsg speaker, toolResultMsg r] of
      (f', m', cs) \<Rightarrow>
        f' = f \<and> currentTurn m' = other_agent (currentTurn m)
        \<and> systemState m' = ''thinking''
        \<and> cs = [Sequence [speakCmd speaker text, executeToolCmd text],
                getLLMResponseCmd (other_agent (currentTurn m))
                  (llmHistory m @ [(speaker, text), (''system'', ''[TOOL_RESULT] '' @ r)])])"
  by (simp add: Let_def)

text \<open>
  A reply without tool directive is spoken only, and its \<open>speechDoneMsg\<close> flips the
  turn once and issues one generation call.
\<close>

lemma generated_plain_reply_flips_turn_once:
  "\<not> MatchString text \<Longrightarrow>
   (case process env f m [llmResponseMsg speaker text None, speechDoneMsg speaker] of
      (f', m', cs) \<Rightarrow>
        f' = f \<and> currentTurn m' = other_agent (currentTurn m)
        \<and> systemState m' = ''thinking''
        \<and> cs = [speakCmd speaker text,
                getLLMResponseCmd (other_agent (currentTurn m))
                  (llmHistory m @ [(speaker, text)])])"
  by (simp add: Let_def)

text \<open>
  C1 fails on the opening line. The initial model is in the state \<open>speaking\<close> with
  Aurora's turn, its opening line has a tool directive, and \<open>Init\<close> runs speech and
  tool for it in sequence. So \<open>speechDoneMsg\<close> arrives first and finds the state
  \<open>speaking\<close>: it flips the turn to Ether and issues a generation call for Ether.
  The tool result then flips the turn again, back to Aurora, and issues a second
  generation call: two flips and two generation calls for one reply.
\<close>

theorem opening_line_flips_turn_twice:
  "currentTurn (initialModel env f) = auroraVoiceID
   \<and> systemState (initialModel env f) = ''speaking''
   \<and> MatchString (opening_words @ opening_tool)
   \<and> Init (initialModel env f)
       = Some (Sequence [speakCmd etherVoiceID (opening_words @ opening_tool),
                         executeToolCmd (opening_words @ opening_tool)])
   \<and> (\<exists>r f'.
        deliver env f (Sequence [speakCmd etherVoiceID (opening_words @ opening_tool),
                                 executeToolCmd (opening_words @ opening_tool)])
          = ([speechDoneMsg etherVoiceID, toolResultMsg r], f')
        \<and> (\<exists>m2. process env f (initialModel env f)
                    [speechDoneMsg etherVoiceID, toolResultMsg r]
              = (f, m2,
                 [getLLMResponseCmd etherVoiceID (llmHistory (initialModel env f)),
                  getLLMResponseCmd auroraVoiceID
                    (llmHistory (initialModel env f) @ [(''system'', ''[TOOL_RESULT] '' @ r)])])
              \<and> currentTurn m2 = auroraVoiceID \<and> systemState m2 = ''thinking''))"
proof -
  let ?t = "opening_words @ opening_tool"
  let ?m = "initialModel env f"
  obtain r f' where r: "run_executeToolCmd env (snd (run_speakCmd env f etherVoiceID ?t)) ?t
      = (toolResultMsg r, f')"
    using run_executeToolCmd_result by blast
  have d: "deliver env f (Sequence [speakCmd etherVoiceID ?t, executeToolCmd ?t])
      = ([speechDoneMsg etherVoiceID, toolResultMsg r], f')"
    using r run_speakCmd_result [of env f etherVoiceID ?t]
    by (simp add: Let_def case_prod_unfold)
  have p: "process env f ?m [speechDoneMsg etherVoiceID, toolResultMsg r]
      = (f, ?m\<lparr>systemState := ''thinking'', currentTurn := etherVoiceID,
                 toolLogs := [Render env toolResultStyle (''Result: '' @ r)],
                 llmHistory := llmHistory ?m @ [(''system'', ''[TOOL_RESULT] '' @ r)],
                 currentTurn := auroraVoiceID\<rparr>,
         [getLLMResponseCmd etherVoiceID (llmHistory ?m),
          getLLMResponseCmd auroraVoiceID
            (llmHistory ?m @ [(''system'', ''[TOOL_RESULT] '' @ r)])])"
    by (simp add: initialModel_fields Let_def other_agent_simps)
  have i: "Init ?m = Some (Sequence [speakCmd etherVoiceID ?t, executeToolCmd ?t])"
    by (simp add: Init_def initialModel_fields)
  have o: "MatchString ?t"
    by (simp add: MatchString_def opening_words_def opening_tool_def toolRegex_here_def
        HasPrefix_def is_word_def in_arg_def newline_def)
  from d p i o show ?thesis
    by (simp add: initialModel_fields other_agent_simps)
qed

end
